theory Spec2Isabelle
  imports Main "HOL-Library.Word" "HOL-Library.Sublist"
begin

section \<open>sched-analyzer: the user-space event consumer\<close>

text \<open>
  A shallow embedding of \<^verbatim>\<open>sched-analyzer.c\<close>: the task filter
  \<^verbatim>\<open>ignore_pid_comm\<close>, the eight ring-buffer callbacks
  \<^verbatim>\<open>handle_*_event\<close>, the polling loop of the per-event threads and the
  control flow of \<^verbatim>\<open>main\<close>.

  Every call that leaves the program (the \<^verbatim>\<open>trace_*\<close> functions of the
  perfetto wrapper, \<^verbatim>\<open>fprintf(stderr, ...)\<close>, libbpf and pthread calls) is
  recorded as a value, in program order; a callback returns the list of calls it
  made together with its return code.
\<close>

subsection \<open>Machine types\<close>

text \<open>
  \<^verbatim>\<open>unsigned long long\<close> and, on the LP64 targets the BPF tool chain
  supports, \<^verbatim>\<open>unsigned long\<close> are 64-bit words; \<^verbatim>\<open>int\<close> and
  \<^verbatim>\<open>pid_t\<close> are 32-bit words. The comparison \<^verbatim>\<open>e->f != -1\<close>
  converts \<^verbatim>\<open>-1\<close> to the type of the field, which is the word \<open>- 1\<close>
  (all bits set) at either width. Order comparisons on \<open>ulong\<close> are unsigned,
  as \<open>\<le>\<close> on words is.
\<close>

type_synonym u64 = "64 word"
type_synonym ulong = "64 word"
type_synonym cint = "32 word"
type_synonym pid_t = "32 word"

subsection \<open>Configuration: \<^verbatim>\<open>sa_opts\<close>\<close>

text \<open>
  The global \<^verbatim>\<open>struct sa_opts\<close> is filled by the argument parser. The arrays
  \<^verbatim>\<open>pid[]\<close> and \<^verbatim>\<open>comm[]\<close> with their counters
  \<^verbatim>\<open>num_pids\<close> and \<^verbatim>\<open>num_comms\<close> are lists; the counter is the
  length of the list. The field \<^verbatim>\<open>output\<close> is \<open>output_file\<close> here
  (\<open>output\<close> is a keyword of Isabelle).
\<close>

record sa_opts =
  load_avg_cpu :: bool
  runnable_avg_cpu :: bool
  util_avg_cpu :: bool
  util_avg_rt :: bool
  util_avg_dl :: bool
  util_avg_irq :: bool
  load_avg_thermal :: bool
  util_est_cpu :: bool
  load_avg_task :: bool
  runnable_avg_task :: bool
  util_avg_task :: bool
  util_est_task :: bool
  cpu_nr_running :: bool
  cpu_idle :: bool
  load_balance :: bool
  ipi :: bool
  pid :: "pid_t list"
  comm :: "string list"
  output_file :: string
  output_path :: string

definition num_pids :: "sa_opts \<Rightarrow> nat" where
  "num_pids opts = length (pid opts)"

definition num_comms :: "sa_opts \<Rightarrow> nat" where
  "num_comms opts = length (comm opts)"

subsection \<open>Events\<close>

text \<open>
  The enumerations \<^verbatim>\<open>PELT_TYPE_*\<close> and \<^verbatim>\<open>LB_*\<close> are used by the
  callbacks as \<^verbatim>\<open>switch\<close> labels. A C enum object can hold any value of its
  underlying integer type; the last constructor of each datatype stands for the
  values that match none of the labels.
\<close>

datatype pelt_type =
  PELT_TYPE_CFS | PELT_TYPE_RT | PELT_TYPE_DL | PELT_TYPE_IRQ | PELT_TYPE_THERMAL
  | PELT_TYPE_OTHER int

datatype lb_phases =
  LB_NOHZ_IDLE_BALANCE | LB_RUN_REBALANCE_DOMAINS | LB_REBALANCE_DOMAINS
  | LB_BALANCE_FAIR | LB_PICK_NEXT_TASK_FAIR | LB_NEWIDLE_BALANCE | LB_LOAD_BALANCE
  | LB_OTHER int

text \<open>
  One record per event struct, with the fields the callbacks read. Field names
  carry a prefix for the struct (\<open>rq_\<close>, \<open>task_\<close>, \<open>nr_\<close>, \<open>sw_\<close>, \<open>idle_\<close>,
  \<open>lb_\<close>, \<open>ipi_\<close>), since several structs have fields of the same name.
  \<^verbatim>\<open>sched-analyzer-events.h\<close> declares \<^verbatim>\<open>ts\<close> as
  \<^verbatim>\<open>unsigned long long\<close>, \<^verbatim>\<open>cpu\<close> as \<^verbatim>\<open>int\<close> and
  \<^verbatim>\<open>util_avg\<close>, \<^verbatim>\<open>uclamp_min\<close>, \<^verbatim>\<open>uclamp_max\<close> as
  \<^verbatim>\<open>unsigned long\<close>. The fields that the callbacks read and the header does
  not declare are typed alike: load-tracking values, the misfit load and code
  addresses as \<^verbatim>\<open>unsigned long\<close>; cpu numbers, process identifiers, counts,
  states and flags as \<^verbatim>\<open>int\<close>; \<^verbatim>\<open>running\<close> and \<^verbatim>\<open>entry\<close>,
  which are only tested, as truth values. The callbacks use \<^verbatim>\<open>e->type\<close> as
  an enumeration (\<^verbatim>\<open>switch\<close> labels, \<^verbatim>\<open>%d\<close>).
\<close>

record rq_pelt_event =
  rq_ts :: u64
  rq_cpu :: cint
  rq_type :: pelt_type
  rq_load_avg :: ulong
  rq_runnable_avg :: ulong
  rq_util_avg :: ulong
  rq_uclamp_min :: ulong
  rq_uclamp_max :: ulong
  rq_util_est_enqueued :: ulong

record task_pelt_event =
  task_ts :: u64
  task_pid :: pid_t
  task_comm :: string
  task_load_avg :: ulong
  task_runnable_avg :: ulong
  task_util_avg :: ulong
  task_uclamp_min :: ulong
  task_uclamp_max :: ulong
  task_util_est_enqueued :: ulong
  task_util_est_ewma :: ulong

record rq_nr_running_event =
  nr_ts :: u64
  nr_cpu :: cint
  nr_nr_running :: cint

record sched_switch_event =
  sw_ts :: u64
  sw_pid :: pid_t
  sw_comm :: string
  sw_running :: bool

record freq_idle_event =
  idle_ts :: u64
  idle_cpu :: cint
  idle_idle_state :: cint
  idle_idle_miss :: cint

record softirq_event =
  sirq_ts :: u64
  sirq_cpu :: cint

text \<open>The statistics snapshot \<^verbatim>\<open>sd_stats\<close> is passed on by address and never
  inspected: its type is a parameter.\<close>

record 's lb_event =
  lb_ts :: u64
  lb_this_cpu :: cint
  lb_lb_cpu :: cint
  lb_phase :: lb_phases
  lb_entry :: bool
  lb_overloaded :: cint
  lb_overutilized :: cint
  lb_misfit_task_load :: ulong
  lb_sd_stats :: 's

record ipi_event =
  ipi_ts :: u64
  ipi_from_cpu :: cint
  ipi_target_cpu :: cint
  ipi_callsite :: ulong
  ipi_callback :: ulong

subsection \<open>Calls made by the callbacks\<close>

text \<open>
  One constructor per function of the perfetto wrapper, named as the function and
  carrying the arguments of the call, and one for the line written to
  \<^verbatim>\<open>stderr\<close> by \<^verbatim>\<open>handle_rq_pelt_event\<close>.
\<close>

datatype 's trace_call =
  trace_cpu_load_avg u64 cint ulong
  | trace_cpu_runnable_avg u64 cint ulong
  | trace_cpu_load_avg_thermal u64 cint ulong
  | trace_cpu_util_avg u64 cint ulong
  | trace_cpu_uclamped_avg u64 cint ulong
  | trace_cpu_util_avg_rt u64 cint ulong
  | trace_cpu_util_avg_dl u64 cint ulong
  | trace_cpu_util_avg_irq u64 cint ulong
  | trace_cpu_util_est_enqueued u64 cint ulong
  | trace_task_load_avg u64 string pid_t ulong
  | trace_task_runnable_avg u64 string pid_t ulong
  | trace_task_util_avg u64 string pid_t ulong
  | trace_task_uclamped_avg u64 string pid_t ulong
  | trace_task_util_est_enqueued u64 string pid_t ulong
  | trace_task_util_est_ewma u64 string pid_t ulong
  | trace_cpu_nr_running u64 cint cint
  | trace_cpu_idle u64 cint cint
  | trace_cpu_idle_miss u64 cint cint cint
  | trace_lb_sd_stats u64 's
  | trace_lb_overloaded u64 cint
  | trace_lb_overutilized u64 cint
  | trace_lb_misfit u64 cint ulong
  | trace_lb_entry u64 cint cint string
  | trace_lb_exit u64 cint cint
  | trace_ipi_send_cpu u64 cint cint "string option" ulong "string option" ulong
  | stderr_unexpected_pelt_type pelt_type

subsection \<open>\<^verbatim>\<open>clamp\<close>\<close>

text \<open>\<^verbatim>\<open>#define clamp(val, lo, hi) ((val) >= (hi) ? (hi) : ((val) <= (lo) ? (lo) : (val)))\<close>,
  used at type \<^verbatim>\<open>unsigned long\<close>.\<close>

definition clamp :: "ulong \<Rightarrow> ulong \<Rightarrow> ulong \<Rightarrow> ulong" where
  "clamp val lo hi = (if val \<ge> hi then hi else (if val \<le> lo then lo else val))"

subsection \<open>\<^verbatim>\<open>ignore_pid_comm\<close>\<close>

text \<open>
  \<^verbatim>\<open>strstr(haystack, needle)\<close> of the C library returns a pointer to the first
  occurrence of \<open>needle\<close> in \<open>haystack\<close> (the rest of the haystack from there), or
  \<^verbatim>\<open>NULL\<close>; the empty needle occurs at the start.
\<close>

fun strstr :: "string \<Rightarrow> string \<Rightarrow> string option" where
  "strstr [] needle = (if needle = [] then Some [] else None)"
| "strstr (h # hs) needle =
     (if prefix needle (h # hs) then Some (h # hs) else strstr hs needle)"

text \<open>The two \<^verbatim>\<open>for\<close> loops: each leaves the function with \<^verbatim>\<open>false\<close> at the
  first match; \<open>True\<close> here says that the loop has found a match.\<close>

fun pid_loop :: "pid_t list \<Rightarrow> pid_t \<Rightarrow> bool" where
  "pid_loop [] p = False"
| "pid_loop (x # xs) p = (if x = p then True else pid_loop xs p)"

fun comm_loop :: "string list \<Rightarrow> string \<Rightarrow> bool" where
  "comm_loop [] c = False"
| "comm_loop (s # ss) c = (if strstr c s \<noteq> None then True else comm_loop ss c)"

definition ignore_pid_comm :: "sa_opts \<Rightarrow> pid_t \<Rightarrow> string \<Rightarrow> bool" where
  "ignore_pid_comm opts p c =
     (if num_pids opts = 0 \<and> num_comms opts = 0 then False
      else if pid_loop (pid opts) p then False
      else if comm_loop (comm opts) c then False
      else True)"

subsection \<open>The callbacks\<close>

text \<open>Each callback returns the calls it made, in order, and its return code.\<close>

definition handle_rq_pelt_event :: "sa_opts \<Rightarrow> rq_pelt_event \<Rightarrow> 's trace_call list \<times> int" where
  "handle_rq_pelt_event opts e =
    ((if load_avg_cpu opts \<and> rq_load_avg e \<noteq> - 1
      then [trace_cpu_load_avg (rq_ts e) (rq_cpu e) (rq_load_avg e)] else [])
     @ (if runnable_avg_cpu opts \<and> rq_runnable_avg e \<noteq> - 1
        then [trace_cpu_runnable_avg (rq_ts e) (rq_cpu e) (rq_runnable_avg e)] else [])
     @ (if rq_type e = PELT_TYPE_THERMAL
        then (if load_avg_thermal opts
              then [trace_cpu_load_avg_thermal (rq_ts e) (rq_cpu e) (rq_load_avg e)] else [])
        else [])
     @ (if rq_util_avg e \<noteq> - 1
        then (case rq_type e of
                PELT_TYPE_CFS \<Rightarrow>
                  (if util_avg_cpu opts
                   then trace_cpu_util_avg (rq_ts e) (rq_cpu e) (rq_util_avg e)
                        # (if rq_uclamp_min e \<noteq> - 1 \<and> rq_uclamp_max e \<noteq> - 1
                           then [trace_cpu_uclamped_avg (rq_ts e) (rq_cpu e)
                                   (clamp (rq_util_avg e) (rq_uclamp_min e) (rq_uclamp_max e))]
                           else [])
                   else [])
              | PELT_TYPE_RT \<Rightarrow>
                  (if util_avg_rt opts
                   then [trace_cpu_util_avg_rt (rq_ts e) (rq_cpu e) (rq_util_avg e)] else [])
              | PELT_TYPE_DL \<Rightarrow>
                  (if util_avg_dl opts
                   then [trace_cpu_util_avg_dl (rq_ts e) (rq_cpu e) (rq_util_avg e)] else [])
              | PELT_TYPE_IRQ \<Rightarrow>
                  (if util_avg_irq opts
                   then [trace_cpu_util_avg_irq (rq_ts e) (rq_cpu e) (rq_util_avg e)] else [])
              | _ \<Rightarrow> [stderr_unexpected_pelt_type (rq_type e)])
        else [])
     @ (if util_est_cpu opts \<and> rq_util_est_enqueued e \<noteq> - 1
        then [trace_cpu_util_est_enqueued (rq_ts e) (rq_cpu e) (rq_util_est_enqueued e)] else []),
     0)"

definition handle_task_pelt_event :: "sa_opts \<Rightarrow> task_pelt_event \<Rightarrow> 's trace_call list \<times> int" where
  "handle_task_pelt_event opts e =
    (if ignore_pid_comm opts (task_pid e) (task_comm e) then ([], 0)
     else
      ((if load_avg_task opts \<and> task_load_avg e \<noteq> - 1
        then [trace_task_load_avg (task_ts e) (task_comm e) (task_pid e) (task_load_avg e)] else [])
       @ (if runnable_avg_task opts \<and> task_runnable_avg e \<noteq> - 1
          then [trace_task_runnable_avg (task_ts e) (task_comm e) (task_pid e) (task_runnable_avg e)]
          else [])
       @ (if util_avg_task opts \<and> task_util_avg e \<noteq> - 1
          then trace_task_util_avg (task_ts e) (task_comm e) (task_pid e) (task_util_avg e)
               # (if task_uclamp_min e \<noteq> - 1 \<and> task_uclamp_max e \<noteq> - 1
                  then [trace_task_uclamped_avg (task_ts e) (task_comm e) (task_pid e)
                          (clamp (task_util_avg e) (task_uclamp_min e) (task_uclamp_max e))]
                  else [])
          else [])
       @ (if util_est_task opts \<and> task_util_est_enqueued e \<noteq> - 1
          then [trace_task_util_est_enqueued (task_ts e) (task_comm e) (task_pid e)
                  (task_util_est_enqueued e),
                trace_task_util_est_ewma (task_ts e) (task_comm e) (task_pid e)
                  (task_util_est_ewma e)]
          else []),
       0))"

definition handle_rq_nr_running_event ::
  "sa_opts \<Rightarrow> rq_nr_running_event \<Rightarrow> 's trace_call list \<times> int" where
  "handle_rq_nr_running_event opts e =
    ((if cpu_nr_running opts
      then [trace_cpu_nr_running (nr_ts e) (nr_cpu e) (nr_nr_running e)] else []),
     0)"

definition handle_sched_switch_event ::
  "sa_opts \<Rightarrow> sched_switch_event \<Rightarrow> 's trace_call list \<times> int" where
  "handle_sched_switch_event opts e =
    (if ignore_pid_comm opts (sw_pid e) (sw_comm e) then ([], 0)
     else
      ((if \<not> sw_running e \<and> util_avg_task opts
        then [trace_task_load_avg (sw_ts e) (sw_comm e) (sw_pid e) 0] else [])
       @ (if \<not> sw_running e \<and> util_avg_task opts
          then [trace_task_util_avg (sw_ts e) (sw_comm e) (sw_pid e) 0,
                trace_task_uclamped_avg (sw_ts e) (sw_comm e) (sw_pid e) 0]
          else [])
       @ (if \<not> sw_running e \<and> util_est_task opts
          then [trace_task_util_est_enqueued (sw_ts e) (sw_comm e) (sw_pid e) 0,
                trace_task_util_est_ewma (sw_ts e) (sw_comm e) (sw_pid e) 0]
          else []),
       0))"

definition handle_freq_idle_event ::
  "sa_opts \<Rightarrow> freq_idle_event \<Rightarrow> 's trace_call list \<times> int" where
  "handle_freq_idle_event opts e =
    ((if cpu_idle opts
      then trace_cpu_idle (idle_ts e) (idle_cpu e) (idle_idle_state e)
           # (if idle_idle_miss e \<noteq> 0
              then [trace_cpu_idle_miss (idle_ts e) (idle_cpu e) (idle_idle_state e)
                      (idle_idle_miss e)]
              else [])
      else []),
     0)"

definition handle_softirq_event ::
  "sa_opts \<Rightarrow> softirq_event \<Rightarrow> 's trace_call list \<times> int" where
  "handle_softirq_event opts e = ([], 0)"

text \<open>The \<^verbatim>\<open>switch\<close> of \<^verbatim>\<open>handle_lb_event\<close> sets the phase name and, in the
  \<^verbatim>\<open>LB_REBALANCE_DOMAINS\<close> case, makes a call of its own.\<close>

fun lb_phase_name :: "lb_phases \<Rightarrow> string" where
  "lb_phase_name LB_NOHZ_IDLE_BALANCE = ''_nohz_idle_balance()''"
| "lb_phase_name LB_RUN_REBALANCE_DOMAINS = ''run_rebalance_domains()''"
| "lb_phase_name LB_REBALANCE_DOMAINS = ''rebalance_domains()''"
| "lb_phase_name LB_BALANCE_FAIR = ''balance_fair()''"
| "lb_phase_name LB_PICK_NEXT_TASK_FAIR = ''pick_next_task_fair()''"
| "lb_phase_name LB_NEWIDLE_BALANCE = ''newidle_balance()''"
| "lb_phase_name LB_LOAD_BALANCE = ''load_balance()''"
| "lb_phase_name (LB_OTHER n) = ''unknown''"

definition handle_lb_event :: "sa_opts \<Rightarrow> 's lb_event \<Rightarrow> 's trace_call list \<times> int" where
  "handle_lb_event opts e =
    ((if lb_phase e = LB_REBALANCE_DOMAINS \<and> lb_entry e
      then [trace_lb_sd_stats (lb_ts e) (lb_sd_stats e)] else [])
     @ (if lb_overloaded e \<noteq> - 1
        then [trace_lb_overloaded (lb_ts e) (lb_overloaded e)] else [])
     @ (if lb_overutilized e \<noteq> - 1
        then [trace_lb_overutilized (lb_ts e) (lb_overutilized e)] else [])
     @ (if lb_misfit_task_load e \<noteq> - 1
        then [trace_lb_misfit (lb_ts e) (lb_lb_cpu e) (lb_misfit_task_load e)] else [])
     @ (if lb_entry e
        then [trace_lb_entry (lb_ts e) (lb_this_cpu e) (lb_lb_cpu e) (lb_phase_name (lb_phase e))]
        else [trace_lb_exit (lb_ts e) (lb_this_cpu e) (lb_lb_cpu e)]),
     0)"

text \<open>\<^verbatim>\<open>find_kallsyms\<close> belongs to the symbol parser; it is a parameter here
  (\<open>None\<close> for the null pointer).\<close>

definition handle_ipi_event ::
  "(ulong \<Rightarrow> string option) \<Rightarrow> sa_opts \<Rightarrow> ipi_event \<Rightarrow> 's trace_call list \<times> int" where
  "handle_ipi_event find_kallsyms opts e =
    ([trace_ipi_send_cpu (ipi_ts e) (ipi_from_cpu e) (ipi_target_cpu e)
        (find_kallsyms (ipi_callsite e)) (ipi_callsite e)
        (find_kallsyms (ipi_callback e)) (ipi_callback e)],
     0)"

subsection \<open>The per-event threads\<close>

text \<open>
  The macros \<^verbatim>\<open>CREATE_EVENT_RB\<close>, \<^verbatim>\<open>POLL_EVENT_RB\<close>,
  \<^verbatim>\<open>EVENT_THREAD_FN\<close>, \<^verbatim>\<open>CREATE_EVENT_THREAD\<close> and
  \<^verbatim>\<open>DESTROY_EVENT_THREAD\<close> are expanded once per event; the event is a
  parameter here and \<open>event_name\<close> is the macro's \<^verbatim>\<open>#event\<close>.
\<close>

datatype event =
  rq_pelt | task_pelt | rq_nr_running | sched_switch | freq_idle | softirq | lb | ipi_ev

fun event_name :: "event \<Rightarrow> string" where
  "event_name rq_pelt = ''rq_pelt''"
| "event_name task_pelt = ''task_pelt''"
| "event_name rq_nr_running = ''rq_nr_running''"
| "event_name sched_switch = ''sched_switch''"
| "event_name freq_idle = ''freq_idle''"
| "event_name softirq = ''softirq''"
| "event_name lb = ''lb''"
| "event_name ipi_ev = ''ipi''"

text \<open>The order of the \<^verbatim>\<open>CREATE_EVENT_THREAD\<close> and
  \<^verbatim>\<open>DESTROY_EVENT_THREAD\<close> lines of \<^verbatim>\<open>main\<close>.\<close>

definition all_events :: "event list" where
  "all_events = [rq_pelt, task_pelt, rq_nr_running, sched_switch, freq_idle, softirq, lb, ipi_ev]"

text \<open>
  The calls of \<^verbatim>\<open>main\<close> and of the thread functions to the outside:
  \<open>fprintf_stderr\<close> carries the format with \<^verbatim>\<open>#event\<close> expanded and the
  integer arguments, \<open>printf\<close> the format and the string arguments (formats are
  written without their line break and carriage return),
  \<open>ring_buffer__poll\<close> the timeout in milliseconds. \<open>assign_bss_sa_opts\<close> is the
  assignment \<^verbatim>\<open>skel->bss->sa_opts = sa_opts\<close>.
\<close>

datatype sys_call =
  argp_parse
  | parse_kallsyms
  | init_perfetto
  | signal string
  | sched_analyzer_bpf__open
  | assign_bss_sa_opts
  | bpf_program__set_autoload string bool
  | sched_analyzer_bpf__load
  | sched_analyzer_bpf__attach
  | pthread_create event
  | pthread_join event
  | start_perfetto_trace
  | stop_perfetto_trace
  | sleep nat
  | usleep nat
  | sched_analyzer_bpf__destroy
  | printf string "string list"
  | fprintf_stderr string "int list"
  | ring_buffer__new event
  | ring_buffer__poll event nat
  | ring_buffer__free event

text \<open>\<^verbatim>\<open>EINTR\<close> of \<^verbatim>\<open><errno.h>\<close> on Linux.\<close>

definition EINTR :: int where
  "EINTR = 4"

text \<open>
  \<^verbatim>\<open>POLL_EVENT_RB\<close>: \<open>r\<close> is what \<^verbatim>\<open>ring_buffer__poll\<close> returned (the
  callback runs inside that call). The macro's \<^verbatim>\<open>break\<close> leaves its own
  \<^verbatim>\<open>do { } while(0)\<close>, not the loop of the thread. \<^verbatim>\<open>pr_debug\<close>
  expands to nothing (\<^verbatim>\<open>DEBUG\<close> is not defined). The result is the calls
  made and the value left in \<^verbatim>\<open>err\<close>.
\<close>

definition POLL_EVENT_RB :: "event \<Rightarrow> int \<Rightarrow> sys_call list \<times> int" where
  "POLL_EVENT_RB ev r =
     (if r = - EINTR then ([ring_buffer__poll ev 1000], 0)
      else if r < 0
      then ([ring_buffer__poll ev 1000,
             fprintf_stderr (''Error polling '' @ event_name ev @ '' ring buffer: %d'') [r]], r)
      else ([ring_buffer__poll ev 1000], r))"

text \<open>
  The loop \<^verbatim>\<open>while (!exiting) { POLL_EVENT_RB(event); usleep(10000); }\<close>.
  The flag is written by the signal handler and the polls answer from outside:
  \<open>exiting k\<close> is the value of the flag at the \<open>k\<close>-th evaluation of the loop
  condition and \<open>poll k\<close> what the \<open>k\<close>-th poll returns (both counted from 0). The
  loop need not end: the result is \<open>None\<close> when the flag is never seen set.
\<close>

partial_function (option) event_loop ::
  "event \<Rightarrow> (nat \<Rightarrow> bool) \<Rightarrow> (nat \<Rightarrow> int) \<Rightarrow> nat \<Rightarrow> sys_call list \<Rightarrow> sys_call list option" where
  "event_loop ev exiting poll k out =
     (if exiting k then Some out
      else event_loop ev exiting poll (Suc k)
             (out @ fst (POLL_EVENT_RB ev (poll k)) @ [usleep 10000]))"

text \<open>\<^verbatim>\<open>EVENT_THREAD_FN\<close>: \<open>rb_ok\<close> says that \<^verbatim>\<open>ring_buffer__new\<close>
  returned a ring buffer.\<close>

definition event_thread_fn ::
  "event \<Rightarrow> bool \<Rightarrow> (nat \<Rightarrow> bool) \<Rightarrow> (nat \<Rightarrow> int) \<Rightarrow> sys_call list option" where
  "event_thread_fn ev rb_ok exiting poll =
     (if \<not> rb_ok
      then Some [ring_buffer__new ev,
                 fprintf_stderr (''Failed to create '' @ event_name ev @ '' ringbuffer'') [],
                 ring_buffer__free ev]
      else (case event_loop ev exiting poll 0 [ring_buffer__new ev] of
              None \<Rightarrow> None
            | Some out \<Rightarrow> Some (out @ [ring_buffer__free ev])))"

subsection \<open>\<^verbatim>\<open>main\<close>\<close>

text \<open>
  What the outside answers to \<^verbatim>\<open>main\<close>: the return code of the argument
  parser and the options it left in \<^verbatim>\<open>sa_opts\<close>, whether
  \<^verbatim>\<open>sched_analyzer_bpf__open\<close> returned a skeleton, the return codes of
  \<^verbatim>\<open>sched_analyzer_bpf__load\<close>, \<^verbatim>\<open>sched_analyzer_bpf__attach\<close>,
  \<^verbatim>\<open>pthread_create\<close> and \<^verbatim>\<open>pthread_join\<close> for each event, and the
  value of \<^verbatim>\<open>exiting\<close> at each evaluation of the condition of the waiting
  loop. The variable \<^verbatim>\<open>err\<close> is an \<open>int\<close>; its only arithmetic is the final
  negation.
\<close>

record main_env =
  argp_parse_ret :: int
  opts_parsed :: sa_opts
  skel_open_ok :: bool
  load_ret :: int
  attach_ret :: int
  pthread_create_ret :: "event \<Rightarrow> int"
  pthread_join_ret :: "event \<Rightarrow> int"
  exiting_at :: "nat \<Rightarrow> bool"

text \<open>The programs whose autoload \<^verbatim>\<open>main\<close> switches off, in the order of the
  calls (\<^verbatim>\<open>handle_run_rebalance_domains_exit\<close> is named twice in the
  source).\<close>

definition autoload_off :: "sa_opts \<Rightarrow> string list" where
  "autoload_off opts =
     (if \<not> load_avg_cpu opts \<and> \<not> runnable_avg_cpu opts \<and> \<not> util_avg_cpu opts
      then [''handle_pelt_cfs''] else [])
     @ (if \<not> load_avg_task opts \<and> \<not> runnable_avg_task opts \<and> \<not> util_avg_task opts
        then [''handle_pelt_se''] else [])
     @ (if \<not> util_avg_rt opts then [''handle_pelt_rt''] else [])
     @ (if \<not> util_avg_dl opts then [''handle_pelt_dl''] else [])
     @ (if \<not> util_avg_irq opts then [''handle_pelt_irq''] else [])
     @ (if \<not> load_avg_thermal opts then [''handle_pelt_thermal''] else [])
     @ (if \<not> util_est_cpu opts then [''handle_util_est_cfs''] else [])
     @ (if \<not> util_est_task opts then [''handle_util_est_se''] else [])
     @ (if \<not> cpu_nr_running opts then [''handle_sched_update_nr_running''] else [])
     @ (if \<not> cpu_idle opts then [''handle_cpu_idle'', ''handle_cpu_idle_miss''] else [])
     @ (if \<not> load_balance opts
        then [''handle_run_rebalance_domains_exit'', ''handle_run_rebalance_domains_entry'',
              ''handle_run_rebalance_domains_exit'', ''handle_rebalance_domains_entry'',
              ''handle_rebalance_domains_exit'', ''handle_balance_fair_entry'',
              ''handle_balance_fair_exit'', ''handle_pick_next_task_fair_entry'',
              ''handle_pick_next_task_fair_exit'', ''handle_newidle_balance_entry'',
              ''handle_newidle_balance_exit'', ''handle_load_balance_entry'',
              ''handle_load_balance_exit'']
        else [])
     @ (if \<not> ipi opts then [''handle_ipi_send_cpu''] else [])
     @ (if \<not> load_avg_task opts \<and> \<not> runnable_avg_task opts \<and> \<not> util_avg_task opts
           \<and> \<not> util_est_task opts
        then [''handle_sched_process_free''] else [])
     @ [''handle_nohz_idle_balance_entry'', ''handle_nohz_idle_balance_exit'',
        ''handle_cpu_frequency'', ''handle_softirq_entry'', ''handle_softirq_exit'',
        ''handle_sched_switch'']"

text \<open>
  The \<^verbatim>\<open>CREATE_EVENT_THREAD\<close> lines: \<open>errs\<close> holds the variables
  \<^verbatim>\<open>event##_err\<close> (all \<open>- 1\<close> at the start). The first
  \<^verbatim>\<open>pthread_create\<close> that fails jumps to \<^verbatim>\<open>cleanup\<close>; the Boolean of
  the result says that every thread was created.
\<close>

fun create_event_threads ::
  "(event \<Rightarrow> int) \<Rightarrow> event list \<Rightarrow> (event \<Rightarrow> int) \<Rightarrow> sys_call list \<times> (event \<Rightarrow> int) \<times> bool" where
  "create_event_threads cr [] errs = ([], errs, True)"
| "create_event_threads cr (ev # evs) errs =
     (if cr ev \<noteq> 0
      then ([pthread_create ev,
             fprintf_stderr (''Failed to create '' @ event_name ev @ '' thread: %d'') [cr ev]],
            errs(ev := cr ev), False)
      else (case create_event_threads cr evs (errs(ev := cr ev)) of
              (cs, errs', ok) \<Rightarrow> (pthread_create ev # cs, errs', ok)))"

text \<open>
  The \<^verbatim>\<open>DESTROY_EVENT_THREAD\<close> lines: each assigns \<^verbatim>\<open>err\<close>, \<open>0\<close> for
  a thread that was not created and the result of \<^verbatim>\<open>pthread_join\<close>
  otherwise. The result is the calls made and the last value of \<^verbatim>\<open>err\<close>.
\<close>

fun destroy_event_threads ::
  "(event \<Rightarrow> int) \<Rightarrow> (event \<Rightarrow> int) \<Rightarrow> event list \<Rightarrow> int \<Rightarrow> sys_call list \<times> int" where
  "destroy_event_threads errs jn [] err = ([], err)"
| "destroy_event_threads errs jn (ev # evs) err =
     (let err' = (if errs ev \<noteq> 0 then 0 else jn ev);
          cs = (if errs ev \<noteq> 0 then [] else [pthread_join ev])
               @ (if err' \<noteq> 0
                  then [fprintf_stderr (''Failed to destory '' @ event_name ev @ '' thread: %d'')
                          [err']]
                  else [])
      in (case destroy_event_threads errs jn evs err' of (ds, e) \<Rightarrow> (cs @ ds, e)))"

text \<open>From the label \<^verbatim>\<open>cleanup\<close> to the \<^verbatim>\<open>return\<close>.\<close>

definition cleanup :: "main_env \<Rightarrow> (event \<Rightarrow> int) \<Rightarrow> int \<Rightarrow> sys_call list \<times> int" where
  "cleanup env errs err =
     (case destroy_event_threads errs (pthread_join_ret env) all_events err of
        (cs, e) \<Rightarrow> (cs @ [sched_analyzer_bpf__destroy], (if e < 0 then - e else 0)))"

text \<open>
  The start of \<^verbatim>\<open>main\<close>, up to and including the
  \<^verbatim>\<open>CREATE_EVENT_THREAD\<close> lines. It ends in one of three ways: by a
  \<^verbatim>\<open>return\<close>, by a jump to \<^verbatim>\<open>cleanup\<close> (with the values of
  \<^verbatim>\<open>event##_err\<close> and of \<^verbatim>\<open>err\<close>), or with all threads created.
\<close>

datatype startup_end =
  Return int
  | Goto_cleanup "event \<Rightarrow> int" int
  | Threads_created "event \<Rightarrow> int" int

definition main_startup :: "main_env \<Rightarrow> sys_call list \<times> startup_end" where
  "main_startup env =
     (let opts = opts_parsed env; errs0 = (\<lambda>ev. - 1) in
      if argp_parse_ret env \<noteq> 0 then ([argp_parse], Return (argp_parse_ret env))
      else
        let cs1 = [argp_parse] @ (if ipi opts then [parse_kallsyms] else [])
                  @ [init_perfetto, signal ''SIGINT'', signal ''SIGTERM'',
                     sched_analyzer_bpf__open]
        in if \<not> skel_open_ok env
           then (cs1 @ [fprintf_stderr ''Failed to open and load BPF skeleton'' []], Return 1)
           else
             let cs2 = cs1 @ [assign_bss_sa_opts]
                       @ map (\<lambda>p. bpf_program__set_autoload p False) (autoload_off opts)
                       @ [sched_analyzer_bpf__load]
             in if load_ret env \<noteq> 0
                then (cs2 @ [fprintf_stderr ''Failed to load and verify BPF skeleton'' []],
                      Goto_cleanup errs0 (load_ret env))
                else
                  let cs3 = cs2 @ [sched_analyzer_bpf__attach]
                  in if attach_ret env \<noteq> 0
                     then (cs3 @ [fprintf_stderr ''Failed to attach BPF skeleton'' []],
                           Goto_cleanup errs0 (attach_ret env))
                     else (case create_event_threads (pthread_create_ret env) all_events errs0 of
                             (cs4, errs, ok) \<Rightarrow>
                               (cs3 @ cs4,
                                if ok then Threads_created errs (attach_ret env)
                                else Goto_cleanup errs (attach_ret env))))"

text \<open>The loop \<^verbatim>\<open>while (!exiting) sleep(1);\<close>: the number of times
  \<^verbatim>\<open>sleep\<close> is called, \<open>None\<close> when the flag is never seen set.\<close>

partial_function (option) wait_exiting :: "(nat \<Rightarrow> bool) \<Rightarrow> nat \<Rightarrow> nat option" where
  "wait_exiting exiting k = (if exiting k then Some k else wait_exiting exiting (Suc k))"

text \<open>\<^verbatim>\<open>main\<close>: the calls made and the value returned, \<open>None\<close> when the
  waiting loop does not end.\<close>

definition main :: "main_env \<Rightarrow> (sys_call list \<times> int) option" where
  "main env =
     (case main_startup env of
        (cs, Return r) \<Rightarrow> Some (cs, r)
      | (cs, Goto_cleanup errs err) \<Rightarrow>
          (case cleanup env errs err of (ds, r) \<Rightarrow> Some (cs @ ds, r))
      | (cs, Threads_created errs err) \<Rightarrow>
          (case wait_exiting (exiting_at env) 0 of
             None \<Rightarrow> None
           | Some n \<Rightarrow>
               (case cleanup env errs err of
                  (ds, r) \<Rightarrow>
                    Some (cs @ [printf ''Collecting data, CTRL+c to stop'' [],
                                start_perfetto_trace]
                          @ replicate n (sleep 1)
                          @ [stop_perfetto_trace,
                             printf ''Collected %s/%s''
                               [output_path (opts_parsed env), output_file (opts_parsed env)]]
                          @ ds, r))))"

subsection \<open>Naming the calls\<close>

text \<open>The name of the function a callback has called (\<^verbatim>\<open>fprintf\<close> for the
  line on \<^verbatim>\<open>stderr\<close>), and the calls of a list that went to a given
  function.\<close>

definition callee :: "'s trace_call \<Rightarrow> string" where
  "callee c = (case c of
      trace_cpu_load_avg _ _ _ \<Rightarrow> ''trace_cpu_load_avg''
    | trace_cpu_runnable_avg _ _ _ \<Rightarrow> ''trace_cpu_runnable_avg''
    | trace_cpu_load_avg_thermal _ _ _ \<Rightarrow> ''trace_cpu_load_avg_thermal''
    | trace_cpu_util_avg _ _ _ \<Rightarrow> ''trace_cpu_util_avg''
    | trace_cpu_uclamped_avg _ _ _ \<Rightarrow> ''trace_cpu_uclamped_avg''
    | trace_cpu_util_avg_rt _ _ _ \<Rightarrow> ''trace_cpu_util_avg_rt''
    | trace_cpu_util_avg_dl _ _ _ \<Rightarrow> ''trace_cpu_util_avg_dl''
    | trace_cpu_util_avg_irq _ _ _ \<Rightarrow> ''trace_cpu_util_avg_irq''
    | trace_cpu_util_est_enqueued _ _ _ \<Rightarrow> ''trace_cpu_util_est_enqueued''
    | trace_task_load_avg _ _ _ _ \<Rightarrow> ''trace_task_load_avg''
    | trace_task_runnable_avg _ _ _ _ \<Rightarrow> ''trace_task_runnable_avg''
    | trace_task_util_avg _ _ _ _ \<Rightarrow> ''trace_task_util_avg''
    | trace_task_uclamped_avg _ _ _ _ \<Rightarrow> ''trace_task_uclamped_avg''
    | trace_task_util_est_enqueued _ _ _ _ \<Rightarrow> ''trace_task_util_est_enqueued''
    | trace_task_util_est_ewma _ _ _ _ \<Rightarrow> ''trace_task_util_est_ewma''
    | trace_cpu_nr_running _ _ _ \<Rightarrow> ''trace_cpu_nr_running''
    | trace_cpu_idle _ _ _ \<Rightarrow> ''trace_cpu_idle''
    | trace_cpu_idle_miss _ _ _ _ \<Rightarrow> ''trace_cpu_idle_miss''
    | trace_lb_sd_stats _ _ \<Rightarrow> ''trace_lb_sd_stats''
    | trace_lb_overloaded _ _ \<Rightarrow> ''trace_lb_overloaded''
    | trace_lb_overutilized _ _ \<Rightarrow> ''trace_lb_overutilized''
    | trace_lb_misfit _ _ _ \<Rightarrow> ''trace_lb_misfit''
    | trace_lb_entry _ _ _ _ \<Rightarrow> ''trace_lb_entry''
    | trace_lb_exit _ _ _ \<Rightarrow> ''trace_lb_exit''
    | trace_ipi_send_cpu _ _ _ _ _ _ _ \<Rightarrow> ''trace_ipi_send_cpu''
    | stderr_unexpected_pelt_type _ \<Rightarrow> ''fprintf'')"

definition calls_to :: "string \<Rightarrow> 's trace_call list \<Rightarrow> 's trace_call list" where
  "calls_to f cs = filter (\<lambda>c. callee c = f) cs"

subsection \<open>Concrete inputs\<close>

text \<open>A configuration with every capability off and no filter, one with every
  capability on and no filter, and the answers of
  a run in which every call succeeds and the termination signal has arrived
  before the first evaluation of the waiting loop's condition; concrete instances
  below are updates of these.\<close>

definition opts_off :: sa_opts where
  "opts_off = \<lparr>load_avg_cpu = False, runnable_avg_cpu = False, util_avg_cpu = False,
     util_avg_rt = False, util_avg_dl = False, util_avg_irq = False,
     load_avg_thermal = False, util_est_cpu = False, load_avg_task = False,
     runnable_avg_task = False, util_avg_task = False, util_est_task = False,
     cpu_nr_running = False, cpu_idle = False, load_balance = False, ipi = False,
     pid = [], comm = [], output_file = ''sched-analyzer.perfetto-trace'',
     output_path = ''.''\<rparr>"

definition opts_all :: sa_opts where
  "opts_all = \<lparr>load_avg_cpu = True, runnable_avg_cpu = True, util_avg_cpu = True,
     util_avg_rt = True, util_avg_dl = True, util_avg_irq = True,
     load_avg_thermal = True, util_est_cpu = True, load_avg_task = True,
     runnable_avg_task = True, util_avg_task = True, util_est_task = True,
     cpu_nr_running = True, cpu_idle = True, load_balance = True, ipi = True,
     pid = [], comm = [], output_file = ''sched-analyzer.perfetto-trace'',
     output_path = ''.''\<rparr>"

definition env_ok :: main_env where
  "env_ok = \<lparr>argp_parse_ret = 0, opts_parsed = opts_off, skel_open_ok = True,
     load_ret = 0, attach_ret = 0, pthread_create_ret = (\<lambda>ev. 0),
     pthread_join_ret = (\<lambda>ev. 0), exiting_at = (\<lambda>k. True)\<rparr>"

section \<open>Properties\<close>

subsection \<open>The task filter\<close>

lemma strstr_None_iff: "strstr hay needle = None \<longleftrightarrow> \<not> sublist needle hay"
  by (induction hay) (auto simp: sublist_Cons_right)

lemma strstr_Some_iff: "(\<exists>r. strstr hay needle = Some r) \<longleftrightarrow> sublist needle hay"
  using strstr_None_iff [of hay needle] by (cases "strstr hay needle") simp_all

lemma pid_loop_set: "pid_loop xs p \<longleftrightarrow> p \<in> set xs"
  by (induction xs) auto

lemma comm_loop_sublist: "comm_loop ss c \<longleftrightarrow> (\<exists>s\<in>set ss. sublist s c)"
  by (induction ss) (simp_all add: strstr_None_iff strstr_Some_iff)

text \<open>
  Claim C4. \<open>ignore_pid_comm\<close> answers \<open>False\<close> for every task when both the list
  of identifiers and the list of substrings are empty; otherwise it answers
  \<open>False\<close> when the identifier is one of the listed identifiers or when the name
  contains one of the listed substrings as a contiguous part (\<open>sublist\<close>), and
  \<open>True\<close> in every other case.
\<close>

theorem ignore_pid_comm_decision:
  "ignore_pid_comm opts p c =
     (if pid opts = [] \<and> comm opts = [] then False
      else if p \<in> set (pid opts) \<or> (\<exists>s\<in>set (comm opts). sublist s c) then False
      else True)"
  by (simp add: ignore_pid_comm_def num_pids_def num_comms_def pid_loop_set comm_loop_sublist)

theorem ignore_pid_comm_decision_witness:
  "ignore_pid_comm (opts_off\<lparr>pid := [5], comm := [''kworker'']\<rparr>) 7 ''kworker/0:1'' = False
   \<and> ignore_pid_comm (opts_off\<lparr>pid := [5], comm := [''kworker'']\<rparr>) 5 ''bash'' = False
   \<and> ignore_pid_comm (opts_off\<lparr>pid := [5], comm := [''kworker'']\<rparr>) 7 ''bash'' = True
   \<and> ignore_pid_comm opts_off 7 ''bash'' = False"
  using ignore_pid_comm_decision [of "opts_off\<lparr>pid := [5], comm := [''kworker'']\<rparr>" 7 "''kworker/0:1''"]
    ignore_pid_comm_decision [of "opts_off\<lparr>pid := [5], comm := [''kworker'']\<rparr>" 5 "''bash''"]
    ignore_pid_comm_decision [of "opts_off\<lparr>pid := [5], comm := [''kworker'']\<rparr>" 7 "''bash''"]
    ignore_pid_comm_decision [of opts_off 7 "''bash''"]
  by (simp add: opts_off_def sublist_Cons_right)

subsection \<open>Sentinel values\<close>

lemma calls_to_simps:
  "calls_to f [] = []"
  "calls_to f (c # cs) = (if callee c = f then c # calls_to f cs else calls_to f cs)"
  "calls_to f (cs @ ds) = calls_to f cs @ calls_to f ds"
  by (simp_all add: calls_to_def)

lemma ignore_pid_comm_no_filter: "pid opts = [] \<Longrightarrow> comm opts = [] \<Longrightarrow> \<not> ignore_pid_comm opts p c"
  by (simp add: ignore_pid_comm_def num_pids_def num_comms_def)

text \<open>
  Claim C1, as stated, fails: \<open>handle_task_pelt_event\<close> tests
  \<open>util_est_enqueued\<close> only, and passes \<open>util_est_ewma\<close> on whatever its value.
  Here the capability is on, \<open>util_est_enqueued\<close> is 5 and \<open>util_est_ewma\<close> is
  the sentinel: one \<open>trace_task_util_est_ewma\<close> record with the sentinel as its
  value is emitted.
\<close>

theorem task_util_est_ewma_sentinel_is_traced:
  "task_util_est_ewma
     \<lparr>task_ts = 100, task_pid = 42, task_comm = ''bash'', task_load_avg = - 1,
      task_runnable_avg = - 1, task_util_avg = - 1, task_uclamp_min = - 1,
      task_uclamp_max = - 1, task_util_est_enqueued = 5, task_util_est_ewma = - 1\<rparr> = - 1
   \<and> calls_to ''trace_task_util_est_ewma''
       (fst (handle_task_pelt_event (opts_off\<lparr>util_est_task := True\<rparr>)
          \<lparr>task_ts = 100, task_pid = 42, task_comm = ''bash'', task_load_avg = - 1,
           task_runnable_avg = - 1, task_util_avg = - 1, task_uclamp_min = - 1,
           task_uclamp_max = - 1, task_util_est_enqueued = 5, task_util_est_ewma = - 1\<rparr>))
     = [trace_task_util_est_ewma 100 ''bash'' 42 (- 1) :: unit trace_call]"
  by (simp add: handle_task_pelt_event_def opts_off_def ignore_pid_comm_no_filter
      calls_to_simps callee_def)

text \<open>
  Claim C1, amended. For the fields that the handlers compare with the sentinel:
  when the field is the sentinel, the handler makes no call to the trace function
  that takes it. For an RqPelt event: \<open>load_avg\<close> and \<open>trace_cpu_load_avg\<close>,
  \<open>runnable_avg\<close> and \<open>trace_cpu_runnable_avg\<close>, \<open>util_avg\<close> and the four
  \<open>trace_cpu_util_avg*\<close> functions and \<open>trace_cpu_uclamped_avg\<close>, either clamp
  bound and \<open>trace_cpu_uclamped_avg\<close>, \<open>util_est_enqueued\<close> and
  \<open>trace_cpu_util_est_enqueued\<close>. For a TaskPelt event the same with the task
  functions, where \<open>util_est_enqueued\<close> being the sentinel also excludes the
  \<open>trace_task_util_est_ewma\<close> record (\<open>util_est_ewma\<close> has no test of its own).
  For a LoadBalance event: \<open>overloaded\<close>, \<open>overutilized\<close> and
  \<open>misfit_task_load\<close> with their three functions.
\<close>

theorem sentinel_tested_fields_not_traced:
  fixes e :: rq_pelt_event and t :: task_pelt_event and b :: "'s lb_event"
  shows
  "((rq_load_avg e = - 1 \<longrightarrow>
       calls_to ''trace_cpu_load_avg''
         (fst (handle_rq_pelt_event opts e :: 's trace_call list \<times> int)) = [])
    \<and> (rq_runnable_avg e = - 1 \<longrightarrow>
       calls_to ''trace_cpu_runnable_avg''
         (fst (handle_rq_pelt_event opts e :: 's trace_call list \<times> int)) = [])
    \<and> (rq_util_avg e = - 1 \<longrightarrow>
       calls_to ''trace_cpu_util_avg''
         (fst (handle_rq_pelt_event opts e :: 's trace_call list \<times> int)) = []
       \<and> calls_to ''trace_cpu_uclamped_avg''
         (fst (handle_rq_pelt_event opts e :: 's trace_call list \<times> int)) = []
       \<and> calls_to ''trace_cpu_util_avg_rt''
         (fst (handle_rq_pelt_event opts e :: 's trace_call list \<times> int)) = []
       \<and> calls_to ''trace_cpu_util_avg_dl''
         (fst (handle_rq_pelt_event opts e :: 's trace_call list \<times> int)) = []
       \<and> calls_to ''trace_cpu_util_avg_irq''
         (fst (handle_rq_pelt_event opts e :: 's trace_call list \<times> int)) = [])
    \<and> (rq_uclamp_min e = - 1 \<or> rq_uclamp_max e = - 1 \<longrightarrow>
       calls_to ''trace_cpu_uclamped_avg''
         (fst (handle_rq_pelt_event opts e :: 's trace_call list \<times> int)) = [])
    \<and> (rq_util_est_enqueued e = - 1 \<longrightarrow>
       calls_to ''trace_cpu_util_est_enqueued''
         (fst (handle_rq_pelt_event opts e :: 's trace_call list \<times> int)) = []))
   \<and> ((task_load_avg t = - 1 \<longrightarrow>
       calls_to ''trace_task_load_avg''
         (fst (handle_task_pelt_event opts t :: 's trace_call list \<times> int)) = [])
    \<and> (task_runnable_avg t = - 1 \<longrightarrow>
       calls_to ''trace_task_runnable_avg''
         (fst (handle_task_pelt_event opts t :: 's trace_call list \<times> int)) = [])
    \<and> (task_util_avg t = - 1 \<longrightarrow>
       calls_to ''trace_task_util_avg''
         (fst (handle_task_pelt_event opts t :: 's trace_call list \<times> int)) = []
       \<and> calls_to ''trace_task_uclamped_avg''
         (fst (handle_task_pelt_event opts t :: 's trace_call list \<times> int)) = [])
    \<and> (task_uclamp_min t = - 1 \<or> task_uclamp_max t = - 1 \<longrightarrow>
       calls_to ''trace_task_uclamped_avg''
         (fst (handle_task_pelt_event opts t :: 's trace_call list \<times> int)) = [])
    \<and> (task_util_est_enqueued t = - 1 \<longrightarrow>
       calls_to ''trace_task_util_est_enqueued''
         (fst (handle_task_pelt_event opts t :: 's trace_call list \<times> int)) = []
       \<and> calls_to ''trace_task_util_est_ewma''
         (fst (handle_task_pelt_event opts t :: 's trace_call list \<times> int)) = []))
   \<and> ((lb_overloaded b = - 1 \<longrightarrow>
       calls_to ''trace_lb_overloaded'' (fst (handle_lb_event opts b)) = [])
    \<and> (lb_overutilized b = - 1 \<longrightarrow>
       calls_to ''trace_lb_overutilized'' (fst (handle_lb_event opts b)) = [])
    \<and> (lb_misfit_task_load b = - 1 \<longrightarrow>
       calls_to ''trace_lb_misfit'' (fst (handle_lb_event opts b)) = []))"
proof (intro conjI)
  show "rq_util_avg e = - 1 \<longrightarrow>
       calls_to ''trace_cpu_util_avg''
         (fst (handle_rq_pelt_event opts e :: 's trace_call list \<times> int)) = []
       \<and> calls_to ''trace_cpu_uclamped_avg''
         (fst (handle_rq_pelt_event opts e :: 's trace_call list \<times> int)) = []
       \<and> calls_to ''trace_cpu_util_avg_rt''
         (fst (handle_rq_pelt_event opts e :: 's trace_call list \<times> int)) = []
       \<and> calls_to ''trace_cpu_util_avg_dl''
         (fst (handle_rq_pelt_event opts e :: 's trace_call list \<times> int)) = []
       \<and> calls_to ''trace_cpu_util_avg_irq''
         (fst (handle_rq_pelt_event opts e :: 's trace_call list \<times> int)) = []"
    by (simp add: handle_rq_pelt_event_def calls_to_simps callee_def)
qed (simp_all add: handle_rq_pelt_event_def handle_task_pelt_event_def handle_lb_event_def
      calls_to_simps callee_def split: pelt_type.split)

theorem sentinel_tested_fields_not_traced_witness:
  "calls_to ''trace_cpu_load_avg''
     (fst (handle_rq_pelt_event opts_all
        \<lparr>rq_ts = 100, rq_cpu = 0, rq_type = PELT_TYPE_CFS, rq_load_avg = - 1,
         rq_runnable_avg = - 1, rq_util_avg = - 1, rq_uclamp_min = - 1, rq_uclamp_max = - 1,
         rq_util_est_enqueued = - 1\<rparr>)) = ([] :: unit trace_call list)
   \<and> calls_to ''trace_cpu_uclamped_avg''
     (fst (handle_rq_pelt_event opts_all
        \<lparr>rq_ts = 100, rq_cpu = 0, rq_type = PELT_TYPE_CFS, rq_load_avg = - 1,
         rq_runnable_avg = - 1, rq_util_avg = - 1, rq_uclamp_min = - 1, rq_uclamp_max = - 1,
         rq_util_est_enqueued = - 1\<rparr>)) = ([] :: unit trace_call list)
   \<and> calls_to ''trace_task_util_est_ewma''
     (fst (handle_task_pelt_event opts_all
        \<lparr>task_ts = 100, task_pid = 42, task_comm = ''bash'', task_load_avg = - 1,
         task_runnable_avg = - 1, task_util_avg = - 1, task_uclamp_min = - 1,
         task_uclamp_max = - 1, task_util_est_enqueued = - 1, task_util_est_ewma = 7\<rparr>))
     = ([] :: unit trace_call list)
   \<and> calls_to ''trace_lb_misfit''
     (fst (handle_lb_event opts_all
        \<lparr>lb_ts = 100, lb_this_cpu = 0, lb_lb_cpu = 1, lb_phase = LB_LOAD_BALANCE,
         lb_entry = True, lb_overloaded = - 1, lb_overutilized = - 1,
         lb_misfit_task_load = - 1, lb_sd_stats = ()\<rparr>)) = []"
  using sentinel_tested_fields_not_traced
    [where opts = opts_all
       and e = "\<lparr>rq_ts = 100, rq_cpu = 0, rq_type = PELT_TYPE_CFS, rq_load_avg = - 1,
         rq_runnable_avg = - 1, rq_util_avg = - 1, rq_uclamp_min = - 1, rq_uclamp_max = - 1,
         rq_util_est_enqueued = - 1\<rparr>"
       and t = "\<lparr>task_ts = 100, task_pid = 42, task_comm = ''bash'', task_load_avg = - 1,
         task_runnable_avg = - 1, task_util_avg = - 1, task_uclamp_min = - 1,
         task_uclamp_max = - 1, task_util_est_enqueued = - 1, task_util_est_ewma = 7\<rparr>"
       and b = "\<lparr>lb_ts = 100, lb_this_cpu = 0, lb_lb_cpu = 1, lb_phase = LB_LOAD_BALANCE,
         lb_entry = True, lb_overloaded = - 1, lb_overutilized = - 1,
         lb_misfit_task_load = - 1, lb_sd_stats = ()\<rparr>"]
  by simp

text \<open>The thermal record of \<open>handle_rq_pelt_event\<close> is gated by the signal type and
  its capability; \<open>load_avg\<close> is passed on without a test.\<close>

lemma thermal_load_avg_untested:
  "rq_type e = PELT_TYPE_THERMAL \<Longrightarrow> load_avg_thermal opts \<Longrightarrow>
   calls_to ''trace_cpu_load_avg_thermal'' (fst (handle_rq_pelt_event opts e))
     = [trace_cpu_load_avg_thermal (rq_ts e) (rq_cpu e) (rq_load_avg e)]"
  by (simp add: handle_rq_pelt_event_def calls_to_simps callee_def)

subsection \<open>Task switch\<close>

text \<open>What \<open>handle_sched_switch_event\<close> does for a task that passes the filter and
  has stopped running: the three records of the utilisation group, \<open>load_avg\<close>
  among them, under \<open>util_avg_task\<close>, then the two estimation records under
  \<open>util_est_task\<close>. The capability \<open>load_avg_task\<close> is not read.\<close>

lemma handle_sched_switch_event_not_running:
  assumes "\<not> ignore_pid_comm opts (sw_pid e) (sw_comm e)" and "\<not> sw_running e"
  shows "handle_sched_switch_event opts e =
     ((if util_avg_task opts
       then [trace_task_load_avg (sw_ts e) (sw_comm e) (sw_pid e) 0,
             trace_task_util_avg (sw_ts e) (sw_comm e) (sw_pid e) 0,
             trace_task_uclamped_avg (sw_ts e) (sw_comm e) (sw_pid e) 0]
       else [])
      @ (if util_est_task opts
         then [trace_task_util_est_enqueued (sw_ts e) (sw_comm e) (sw_pid e) 0,
               trace_task_util_est_ewma (sw_ts e) (sw_comm e) (sw_pid e) 0]
         else []), 0)"
  using assms by (simp add: handle_sched_switch_event_def)

text \<open>
  Claim C2 asks for the zero-valued \<open>load_avg\<close> record exactly when the task
  \<open>load_avg\<close> capability is on. The code tests \<open>util_avg_task\<close> in its place.
  For the task \<open>bash\<close> (pid 42) that has stopped running at time 100, with no
  filter: with only \<open>load_avg_task\<close> on, nothing is emitted; with only
  \<open>util_avg_task\<close> on, a \<open>load_avg\<close> record is emitted although its capability
  is off.
\<close>

theorem handle_sched_switch_event_load_avg_gate:
  "handle_sched_switch_event (opts_off\<lparr>load_avg_task := True\<rparr>)
     \<lparr>sw_ts = 100, sw_pid = 42, sw_comm = ''bash'', sw_running = False\<rparr>
     = ([] :: unit trace_call list, 0)
   \<and> handle_sched_switch_event (opts_off\<lparr>util_avg_task := True\<rparr>)
     \<lparr>sw_ts = 100, sw_pid = 42, sw_comm = ''bash'', sw_running = False\<rparr>
     = ([trace_task_load_avg 100 ''bash'' 42 0, trace_task_util_avg 100 ''bash'' 42 0,
         trace_task_uclamped_avg 100 ''bash'' 42 0 :: unit trace_call], 0)"
  by (simp add: handle_sched_switch_event_def opts_off_def ignore_pid_comm_no_filter)

subsection \<open>Clamping\<close>

lemma clamp_min_max: "lo \<le> hi \<Longrightarrow> clamp u lo hi = min (max u lo) hi"
  by (auto simp: clamp_def min_def max_def)

lemma clamp_within: "lo \<le> u \<Longrightarrow> u \<le> hi \<Longrightarrow> clamp u lo hi = u"
  by (auto simp: clamp_def)

text \<open>
  Claim C3, as stated, fails when the lower bound is above the upper bound: with
  \<open>util_avg = 2\<close>, \<open>uclamp_min = 10\<close> and \<open>uclamp_max = 5\<close> (none of them the
  sentinel) the CPU path emits the clamped value 10, which is not
  \<open>min (max 2 10) 5 = 5\<close> and is above \<open>uclamp_max\<close>.
\<close>

theorem uclamped_avg_inverted_bounds:
  "calls_to ''trace_cpu_uclamped_avg''
     (fst (handle_rq_pelt_event (opts_off\<lparr>util_avg_cpu := True\<rparr>)
        \<lparr>rq_ts = 100, rq_cpu = 0, rq_type = PELT_TYPE_CFS, rq_load_avg = - 1,
         rq_runnable_avg = - 1, rq_util_avg = 2, rq_uclamp_min = 10, rq_uclamp_max = 5,
         rq_util_est_enqueued = - 1\<rparr>))
     = [trace_cpu_uclamped_avg 100 0 10 :: unit trace_call]
   \<and> min (max 2 10) 5 \<noteq> (10 :: ulong) \<and> \<not> (10 :: ulong) \<le> 5"
  by (simp add: handle_rq_pelt_event_def opts_off_def calls_to_simps callee_def clamp_def)

text \<open>
  Claim C3, amended by the hypothesis \<open>uclamp_min \<le> uclamp_max\<close>. When
  \<open>util_avg\<close>, \<open>uclamp_min\<close> and \<open>uclamp_max\<close> all differ from the sentinel and
  \<open>uclamp_min \<le> uclamp_max\<close>, the one clamped record of the CPU path (a \<open>cfs\<close>
  event, capability on) and the one of the task path (task not ignored, capability
  on) carry \<open>min (max util_avg uclamp_min) uclamp_max\<close>; under the same
  hypothesis the value \<open>clamp\<close> computes lies between the bounds; and it is
  \<open>util_avg\<close> whenever \<open>util_avg\<close> lies between the bounds.
\<close>

theorem uclamped_avg_min_max:
  "(rq_util_avg e \<noteq> - 1 \<and> rq_uclamp_min e \<noteq> - 1 \<and> rq_uclamp_max e \<noteq> - 1
      \<and> rq_uclamp_min e \<le> rq_uclamp_max e \<and> rq_type e = PELT_TYPE_CFS \<and> util_avg_cpu opts
    \<longrightarrow> calls_to ''trace_cpu_uclamped_avg'' (fst (handle_rq_pelt_event opts e :: 's trace_call list \<times> int))
          = [trace_cpu_uclamped_avg (rq_ts e) (rq_cpu e)
               (min (max (rq_util_avg e) (rq_uclamp_min e)) (rq_uclamp_max e))])
   \<and> (task_util_avg t \<noteq> - 1 \<and> task_uclamp_min t \<noteq> - 1 \<and> task_uclamp_max t \<noteq> - 1
      \<and> task_uclamp_min t \<le> task_uclamp_max t
      \<and> \<not> ignore_pid_comm opts (task_pid t) (task_comm t) \<and> util_avg_task opts
    \<longrightarrow> calls_to ''trace_task_uclamped_avg'' (fst (handle_task_pelt_event opts t :: 's trace_call list \<times> int))
          = [trace_task_uclamped_avg (task_ts t) (task_comm t) (task_pid t)
               (min (max (task_util_avg t) (task_uclamp_min t)) (task_uclamp_max t))])
   \<and> (lo \<le> hi \<longrightarrow> lo \<le> clamp u lo hi \<and> clamp u lo hi \<le> hi)
   \<and> (lo \<le> u \<and> u \<le> hi \<longrightarrow> clamp u lo hi = u)"
proof (intro conjI impI)
  assume "lo \<le> hi"
  then show "lo \<le> clamp u lo hi" and "clamp u lo hi \<le> hi"
    by (auto simp: clamp_def)
next
  assume "lo \<le> u \<and> u \<le> hi"
  then show "clamp u lo hi = u"
    by (simp add: clamp_within)
next
  assume "rq_util_avg e \<noteq> - 1 \<and> rq_uclamp_min e \<noteq> - 1 \<and> rq_uclamp_max e \<noteq> - 1
      \<and> rq_uclamp_min e \<le> rq_uclamp_max e \<and> rq_type e = PELT_TYPE_CFS \<and> util_avg_cpu opts"
  then show "calls_to ''trace_cpu_uclamped_avg'' (fst (handle_rq_pelt_event opts e :: 's trace_call list \<times> int))
          = [trace_cpu_uclamped_avg (rq_ts e) (rq_cpu e)
               (min (max (rq_util_avg e) (rq_uclamp_min e)) (rq_uclamp_max e))]"
    by (simp add: handle_rq_pelt_event_def calls_to_simps callee_def clamp_min_max)
next
  assume "task_util_avg t \<noteq> - 1 \<and> task_uclamp_min t \<noteq> - 1 \<and> task_uclamp_max t \<noteq> - 1
      \<and> task_uclamp_min t \<le> task_uclamp_max t
      \<and> \<not> ignore_pid_comm opts (task_pid t) (task_comm t) \<and> util_avg_task opts"
  then show "calls_to ''trace_task_uclamped_avg'' (fst (handle_task_pelt_event opts t :: 's trace_call list \<times> int))
          = [trace_task_uclamped_avg (task_ts t) (task_comm t) (task_pid t)
               (min (max (task_util_avg t) (task_uclamp_min t)) (task_uclamp_max t))]"
    by (simp add: handle_task_pelt_event_def calls_to_simps callee_def clamp_min_max)
qed

theorem uclamped_avg_min_max_witness:
  "calls_to ''trace_cpu_uclamped_avg''
     (fst (handle_rq_pelt_event opts_all
        \<lparr>rq_ts = 100, rq_cpu = 0, rq_type = PELT_TYPE_CFS, rq_load_avg = - 1,
         rq_runnable_avg = - 1, rq_util_avg = 700, rq_uclamp_min = 100, rq_uclamp_max = 512,
         rq_util_est_enqueued = - 1\<rparr>))
     = [trace_cpu_uclamped_avg 100 0 512 :: unit trace_call]
   \<and> calls_to ''trace_task_uclamped_avg''
     (fst (handle_task_pelt_event opts_all
        \<lparr>task_ts = 100, task_pid = 42, task_comm = ''bash'', task_load_avg = - 1,
         task_runnable_avg = - 1, task_util_avg = 50, task_uclamp_min = 100,
         task_uclamp_max = 512, task_util_est_enqueued = - 1, task_util_est_ewma = - 1\<rparr>))
     = [trace_task_uclamped_avg 100 ''bash'' 42 100 :: unit trace_call]
   \<and> (100 :: ulong) \<le> clamp 700 100 512 \<and> clamp 700 100 512 \<le> (512 :: ulong)
   \<and> clamp 300 100 512 = (300 :: ulong)"
  using uclamped_avg_min_max
    [where opts = opts_all
       and e = "\<lparr>rq_ts = 100, rq_cpu = 0, rq_type = PELT_TYPE_CFS, rq_load_avg = - 1,
         rq_runnable_avg = - 1, rq_util_avg = 700, rq_uclamp_min = 100, rq_uclamp_max = 512,
         rq_util_est_enqueued = - 1\<rparr>"
       and t = "\<lparr>task_ts = 100, task_pid = 42, task_comm = ''bash'', task_load_avg = - 1,
         task_runnable_avg = - 1, task_util_avg = 50, task_uclamp_min = 100,
         task_uclamp_max = 512, task_util_est_enqueued = - 1, task_util_est_ewma = - 1\<rparr>"
       and lo = 100 and hi = 512 and u = 700, where ?'s = unit]
    uclamped_avg_min_max
    [where opts = opts_all
       and e = "\<lparr>rq_ts = 100, rq_cpu = 0, rq_type = PELT_TYPE_CFS, rq_load_avg = - 1,
         rq_runnable_avg = - 1, rq_util_avg = 700, rq_uclamp_min = 100, rq_uclamp_max = 512,
         rq_util_est_enqueued = - 1\<rparr>"
       and t = "\<lparr>task_ts = 100, task_pid = 42, task_comm = ''bash'', task_load_avg = - 1,
         task_runnable_avg = - 1, task_util_avg = 50, task_uclamp_min = 100,
         task_uclamp_max = 512, task_util_est_enqueued = - 1, task_util_est_ewma = - 1\<rparr>"
       and lo = 100 and hi = 512 and u = 300, where ?'s = unit]
  by (simp add: opts_all_def ignore_pid_comm_no_filter)

subsection \<open>Load balance spans\<close>

text \<open>
  Claim C5. For a LoadBalance event with \<open>entry\<close> set and phase
  \<open>LB_REBALANCE_DOMAINS\<close>, \<open>handle_lb_event\<close> makes one \<open>trace_lb_entry\<close> call
  with (\<open>this_cpu\<close>, \<open>lb_cpu\<close>, the phase name) and one \<open>trace_lb_sd_stats\<close> call
  with the event's snapshot. For an event with \<open>entry\<close> clear, whatever the
  phase, it makes exactly one \<open>trace_lb_exit\<close> call with (\<open>this_cpu\<close>, \<open>lb_cpu\<close>),
  no \<open>trace_lb_sd_stats\<close> call and no \<open>trace_lb_entry\<close> call.
\<close>

theorem handle_lb_event_spans:
  fixes e :: "'s lb_event"
  shows
  "(lb_entry e \<and> lb_phase e = LB_REBALANCE_DOMAINS \<longrightarrow>
      calls_to ''trace_lb_entry'' (fst (handle_lb_event opts e))
        = [trace_lb_entry (lb_ts e) (lb_this_cpu e) (lb_lb_cpu e) ''rebalance_domains()'']
      \<and> calls_to ''trace_lb_sd_stats'' (fst (handle_lb_event opts e))
        = [trace_lb_sd_stats (lb_ts e) (lb_sd_stats e)])
   \<and> (\<not> lb_entry e \<longrightarrow>
      calls_to ''trace_lb_exit'' (fst (handle_lb_event opts e))
        = [trace_lb_exit (lb_ts e) (lb_this_cpu e) (lb_lb_cpu e)]
      \<and> calls_to ''trace_lb_sd_stats'' (fst (handle_lb_event opts e)) = []
      \<and> calls_to ''trace_lb_entry'' (fst (handle_lb_event opts e)) = [])"
  by (simp add: handle_lb_event_def calls_to_simps callee_def)

theorem handle_lb_event_spans_witness:
  "calls_to ''trace_lb_entry''
     (fst (handle_lb_event opts_all
        \<lparr>lb_ts = 100, lb_this_cpu = 2, lb_lb_cpu = 3, lb_phase = LB_REBALANCE_DOMAINS,
         lb_entry = True, lb_overloaded = 1, lb_overutilized = 0,
         lb_misfit_task_load = - 1, lb_sd_stats = ()\<rparr>))
     = [trace_lb_entry 100 2 3 ''rebalance_domains()'']
   \<and> calls_to ''trace_lb_sd_stats''
     (fst (handle_lb_event opts_all
        \<lparr>lb_ts = 100, lb_this_cpu = 2, lb_lb_cpu = 3, lb_phase = LB_REBALANCE_DOMAINS,
         lb_entry = True, lb_overloaded = 1, lb_overutilized = 0,
         lb_misfit_task_load = - 1, lb_sd_stats = ()\<rparr>))
     = [trace_lb_sd_stats 100 ()]
   \<and> calls_to ''trace_lb_exit''
     (fst (handle_lb_event opts_all
        \<lparr>lb_ts = 200, lb_this_cpu = 2, lb_lb_cpu = 3, lb_phase = LB_REBALANCE_DOMAINS,
         lb_entry = False, lb_overloaded = 1, lb_overutilized = 0,
         lb_misfit_task_load = - 1, lb_sd_stats = ()\<rparr>))
     = [trace_lb_exit 200 2 3]
   \<and> calls_to ''trace_lb_sd_stats''
     (fst (handle_lb_event opts_all
        \<lparr>lb_ts = 200, lb_this_cpu = 2, lb_lb_cpu = 3, lb_phase = LB_REBALANCE_DOMAINS,
         lb_entry = False, lb_overloaded = 1, lb_overutilized = 0,
         lb_misfit_task_load = - 1, lb_sd_stats = ()\<rparr>))
     = []"
  using handle_lb_event_spans
    [where opts = opts_all
       and e = "\<lparr>lb_ts = 100, lb_this_cpu = 2, lb_lb_cpu = 3, lb_phase = LB_REBALANCE_DOMAINS,
         lb_entry = True, lb_overloaded = 1, lb_overutilized = 0,
         lb_misfit_task_load = - 1, lb_sd_stats = ()\<rparr>"]
    handle_lb_event_spans
    [where opts = opts_all
       and e = "\<lparr>lb_ts = 200, lb_this_cpu = 2, lb_lb_cpu = 3, lb_phase = LB_REBALANCE_DOMAINS,
         lb_entry = False, lb_overloaded = 1, lb_overutilized = 0,
         lb_misfit_task_load = - 1, lb_sd_stats = ()\<rparr>"]
  by simp

subsection \<open>Unknown signal type\<close>

text \<open>
  Claim C10. For an RqPelt event whose type is none of the five named ones and
  whose \<open>util_avg\<close> is not the sentinel, \<open>handle_rq_pelt_event\<close> returns 0 and
  makes exactly these calls, in this order: the \<open>load_avg\<close> record, if its
  capability is on and the value is not the sentinel; the \<open>runnable_avg\<close> record
  under the same two conditions; the line on \<^verbatim>\<open>stderr\<close> that reports the
  type; the \<open>util_est_enqueued\<close> record under its two conditions. No call to any
  of the \<open>util_avg\<close> functions is among them.
\<close>

theorem handle_rq_pelt_event_unknown_type:
  assumes "rq_type e = PELT_TYPE_OTHER n" and "rq_util_avg e \<noteq> - 1"
  shows "(handle_rq_pelt_event opts e :: 's trace_call list \<times> int) =
     ((if load_avg_cpu opts \<and> rq_load_avg e \<noteq> - 1
       then [trace_cpu_load_avg (rq_ts e) (rq_cpu e) (rq_load_avg e)] else [])
      @ (if runnable_avg_cpu opts \<and> rq_runnable_avg e \<noteq> - 1
         then [trace_cpu_runnable_avg (rq_ts e) (rq_cpu e) (rq_runnable_avg e)] else [])
      @ [stderr_unexpected_pelt_type (PELT_TYPE_OTHER n)]
      @ (if util_est_cpu opts \<and> rq_util_est_enqueued e \<noteq> - 1
         then [trace_cpu_util_est_enqueued (rq_ts e) (rq_cpu e) (rq_util_est_enqueued e)]
         else []), 0)
   \<and> calls_to ''trace_cpu_util_avg'' (fst (handle_rq_pelt_event opts e :: 's trace_call list \<times> int)) = []
   \<and> calls_to ''trace_cpu_uclamped_avg'' (fst (handle_rq_pelt_event opts e :: 's trace_call list \<times> int)) = []
   \<and> calls_to ''trace_cpu_util_avg_rt'' (fst (handle_rq_pelt_event opts e :: 's trace_call list \<times> int)) = []
   \<and> calls_to ''trace_cpu_util_avg_dl'' (fst (handle_rq_pelt_event opts e :: 's trace_call list \<times> int)) = []
   \<and> calls_to ''trace_cpu_util_avg_irq'' (fst (handle_rq_pelt_event opts e :: 's trace_call list \<times> int)) = []"
  using assms by (simp add: handle_rq_pelt_event_def calls_to_simps callee_def)

theorem handle_rq_pelt_event_unknown_type_witness:
  "handle_rq_pelt_event opts_all
     \<lparr>rq_ts = 100, rq_cpu = 0, rq_type = PELT_TYPE_OTHER 7, rq_load_avg = 11,
      rq_runnable_avg = - 1, rq_util_avg = 3, rq_uclamp_min = 0, rq_uclamp_max = 1024,
      rq_util_est_enqueued = 0\<rparr>
   = ([trace_cpu_load_avg 100 0 11, stderr_unexpected_pelt_type (PELT_TYPE_OTHER 7),
       trace_cpu_util_est_enqueued 100 0 0 :: unit trace_call], 0)"
  using handle_rq_pelt_event_unknown_type
    [where opts = opts_all and n = 7
       and e = "\<lparr>rq_ts = 100, rq_cpu = 0, rq_type = PELT_TYPE_OTHER 7, rq_load_avg = 11,
         rq_runnable_avg = - 1, rq_util_avg = 3, rq_uclamp_min = 0, rq_uclamp_max = 1024,
         rq_util_est_enqueued = 0\<rparr>", where ?'s = unit]
  by (simp add: opts_all_def)

subsection \<open>The polling loop\<close>

text \<open>The loop ends at the first evaluation of its condition that sees the flag
  set; until then every iteration polls once and sleeps.\<close>

lemma event_loop_iterations:
  "exiting (k + n) \<Longrightarrow> (\<forall>j<n. \<not> exiting (k + j)) \<Longrightarrow>
   event_loop ev exiting poll k out
     = Some (out @ concat (map (\<lambda>j. fst (POLL_EVENT_RB ev (poll j)) @ [usleep 10000]) [k..<k + n]))"
proof (induction n arbitrary: k out)
  case 0
  then show ?case by (subst event_loop.simps) simp
next
  case (Suc n)
  from Suc.prems(2) have nk: "\<not> exiting k" by (metis add.right_neutral zero_less_Suc)
  have ex: "exiting (Suc k + n)" using Suc.prems(1) by simp
  have nex: "\<forall>j<n. \<not> exiting (Suc k + j)"
  proof (intro allI impI)
    fix j assume "j < n"
    then have "Suc j < Suc n" by simp
    with Suc.prems(2) have "\<not> exiting (k + Suc j)" by blast
    then show "\<not> exiting (Suc k + j)" by simp
  qed
  have upt: "[k..<Suc (k + n)] = k # [Suc k..<Suc (k + n)]"
    by (simp add: upt_conv_Cons)
  show ?case
    by (subst event_loop.simps) (simp add: nk Suc.IH [OF ex nex] upt del: upt_Suc)
qed


text \<open>
  Claim C8. A poll result that is negative and not \<open>- EINTR\<close> is reported on
  \<^verbatim>\<open>stderr\<close> and nothing else happens in \<open>POLL_EVENT_RB\<close>. A poll
  result \<open>- EINTR\<close> has the same effect as the result 0: the same calls and the
  same value of \<^verbatim>\<open>err\<close>. In the thread function, if the flag is first seen
  set at the \<open>n\<close>-th evaluation of the loop condition, the loop runs exactly \<open>n\<close>
  iterations whatever the polls return, each a poll (with its report, if any)
  followed by the 10 ms sleep, and then the thread frees the ring buffer and
  returns.
\<close>

theorem poll_errors_not_fatal:
  "(r < 0 \<and> r \<noteq> - EINTR \<longrightarrow>
      POLL_EVENT_RB ev r
        = ([ring_buffer__poll ev 1000,
            fprintf_stderr (''Error polling '' @ event_name ev @ '' ring buffer: %d'') [r]], r))
   \<and> POLL_EVENT_RB ev (- EINTR) = POLL_EVENT_RB ev 0
   \<and> (exiting n \<and> (\<forall>j<n. \<not> exiting j) \<longrightarrow>
      event_thread_fn ev True exiting poll
        = Some (ring_buffer__new ev
                # concat (map (\<lambda>j. fst (POLL_EVENT_RB ev (poll j)) @ [usleep 10000]) [0..<n])
                @ [ring_buffer__free ev]))"
proof (intro conjI impI)
  assume "r < 0 \<and> r \<noteq> - EINTR"
  then show "POLL_EVENT_RB ev r
        = ([ring_buffer__poll ev 1000,
            fprintf_stderr (''Error polling '' @ event_name ev @ '' ring buffer: %d'') [r]], r)"
    by (simp add: POLL_EVENT_RB_def)
next
  show "POLL_EVENT_RB ev (- EINTR) = POLL_EVENT_RB ev 0"
    by (simp add: POLL_EVENT_RB_def EINTR_def)
next
  assume a: "exiting n \<and> (\<forall>j<n. \<not> exiting j)"
  then have "event_loop ev exiting poll 0 [ring_buffer__new ev]
     = Some ([ring_buffer__new ev]
             @ concat (map (\<lambda>j. fst (POLL_EVENT_RB ev (poll j)) @ [usleep 10000]) [0..<0 + n]))"
    by (intro event_loop_iterations) simp_all
  then show "event_thread_fn ev True exiting poll
        = Some (ring_buffer__new ev
                # concat (map (\<lambda>j. fst (POLL_EVENT_RB ev (poll j)) @ [usleep 10000]) [0..<n])
                @ [ring_buffer__free ev])"
    by (simp add: event_thread_fn_def)
qed

theorem poll_errors_not_fatal_witness:
  "POLL_EVENT_RB lb (- 5)
     = ([ring_buffer__poll lb 1000, fprintf_stderr ''Error polling lb ring buffer: %d'' [- 5]], - 5)
   \<and> event_thread_fn lb True (\<lambda>k. 2 \<le> k) (\<lambda>k. if k = 0 then - 5 else - 4)
     = Some [ring_buffer__new lb,
             ring_buffer__poll lb 1000, fprintf_stderr ''Error polling lb ring buffer: %d'' [- 5],
             usleep 10000,
             ring_buffer__poll lb 1000, usleep 10000,
             ring_buffer__free lb]"
  using poll_errors_not_fatal
    [where r = "- 5" and ev = lb and n = 2 and exiting = "\<lambda>k. 2 \<le> k"
       and poll = "\<lambda>k. if k = 0 then - 5 else - 4"]
  by (simp add: EINTR_def POLL_EVENT_RB_def upt_conv_Cons less_Suc_eq numeral_2_eq_2)

subsection \<open>Exit status\<close>

text \<open>The last \<^verbatim>\<open>DESTROY_EVENT_THREAD\<close> line decides the value of
  \<^verbatim>\<open>err\<close> at the \<^verbatim>\<open>return\<close>: the value \<^verbatim>\<open>err\<close> had at the
  jump to \<^verbatim>\<open>cleanup\<close> is overwritten.\<close>

lemma destroy_event_threads_err:
  "snd (destroy_event_threads errs jn evs err)
     = (if evs = [] then err else if errs (last evs) \<noteq> 0 then 0 else jn (last evs))"
  by (induction evs arbitrary: err) (simp_all add: Let_def case_prod_beta)

lemma cleanup_status:
  "snd (cleanup env errs err)
     = (if errs ipi_ev \<noteq> 0 \<or> 0 \<le> pthread_join_ret env ipi_ev then 0
        else - pthread_join_ret env ipi_ev)"
proof -
  have "snd (destroy_event_threads errs (pthread_join_ret env) all_events err)
      = (if errs ipi_ev \<noteq> 0 then 0 else pthread_join_ret env ipi_ev)"
    by (simp only: destroy_event_threads_err) (simp add: all_events_def)
  then show ?thesis
    by (cases "destroy_event_threads errs (pthread_join_ret env) all_events err")
       (auto simp: cleanup_def)
qed

lemma main_startup_not_Return:
  "argp_parse_ret env = 0 \<Longrightarrow> skel_open_ok env \<Longrightarrow> snd (main_startup env) \<noteq> Return r"
  by (simp add: main_startup_def Let_def case_prod_beta)

text \<open>Once the arguments are parsed and the skeleton is open, \<open>main\<close> returns 0
  whenever it returns, provided no \<^verbatim>\<open>pthread_join\<close> answers a negative
  number (it answers 0 or an error number, which is positive).\<close>

lemma main_status_zero:
  assumes "main env = Some (cs, r)" and "argp_parse_ret env = 0" and "skel_open_ok env"
    and "\<forall>ev. 0 \<le> pthread_join_ret env ev"
  shows "r = 0"
proof (cases "main_startup env")
  case (Pair cs0 e)
  show ?thesis
  proof (cases e)
    case (Return x)
    with Pair main_startup_not_Return [OF assms(2,3), of x] show ?thesis by simp
  next
    case (Goto_cleanup errs err)
    with Pair assms(1) have "r = snd (cleanup env errs err)"
      by (auto simp: main_def case_prod_beta)
    with assms(4) show ?thesis by (simp add: cleanup_status)
  next
    case (Threads_created errs err)
    with Pair assms(1) have "r = snd (cleanup env errs err)"
      by (auto simp: main_def case_prod_beta split: option.splits)
    with assms(4) show ?thesis by (simp add: cleanup_status)
  qed
qed

lemma main_load_failure:
  assumes "argp_parse_ret env = 0" and "skel_open_ok env" and "load_ret env \<noteq> 0"
  shows "map_option snd (main env) = Some (snd (cleanup env (\<lambda>ev. - 1) (load_ret env)))"
  using assms by (simp add: main_def main_startup_def Let_def case_prod_beta)

lemma main_attach_failure:
  assumes "argp_parse_ret env = 0" and "skel_open_ok env" and "load_ret env = 0"
    and "attach_ret env \<noteq> 0"
  shows "map_option snd (main env) = Some (snd (cleanup env (\<lambda>ev. - 1) (attach_ret env)))"
  using assms by (simp add: main_def main_startup_def Let_def case_prod_beta)

lemma main_create_failure:
  assumes "argp_parse_ret env = 0" and "skel_open_ok env" and "load_ret env = 0"
    and "attach_ret env = 0"
    and "\<not> snd (snd (create_event_threads (pthread_create_ret env) all_events (\<lambda>ev. - 1)))"
  shows "map_option snd (main env)
     = Some (snd (cleanup env
               (fst (snd (create_event_threads (pthread_create_ret env) all_events (\<lambda>ev. - 1))))
               0))"
  using assms by (simp add: main_def main_startup_def Let_def case_prod_beta)

text \<open>
  Claim C7 asks for a nonzero exit status, the magnitude of the error code, after
  every fatal failure of the start. In the code the failures that jump to
  \<^verbatim>\<open>cleanup\<close> end with status 0. With every other call succeeding:
  \<^verbatim>\<open>sched_analyzer_bpf__load\<close> answering \<open>- 22\<close>,
  \<^verbatim>\<open>sched_analyzer_bpf__attach\<close> answering \<open>- 3\<close>, and
  \<^verbatim>\<open>pthread_create\<close> answering 11 for the \<open>lb\<close> thread all make \<open>main\<close>
  return 0.
\<close>

theorem main_exit_status_after_startup_failure:
  "map_option snd (main (env_ok\<lparr>load_ret := - 22\<rparr>)) = Some 0
   \<and> map_option snd (main (env_ok\<lparr>attach_ret := - 3\<rparr>)) = Some 0
   \<and> map_option snd (main (env_ok\<lparr>pthread_create_ret := (\<lambda>ev. if ev = lb then 11 else 0)\<rparr>))
       = Some 0"
proof (intro conjI)
  show "map_option snd (main (env_ok\<lparr>load_ret := - 22\<rparr>)) = Some 0"
    by (simp add: main_load_failure cleanup_status env_ok_def)
  show "map_option snd (main (env_ok\<lparr>attach_ret := - 3\<rparr>)) = Some 0"
    by (simp add: main_attach_failure cleanup_status env_ok_def)
  show "map_option snd (main (env_ok\<lparr>pthread_create_ret := (\<lambda>ev. if ev = lb then 11 else 0)\<rparr>))
       = Some 0"
    by (subst main_create_failure) (simp_all add: env_ok_def all_events_def cleanup_status)
qed

subsection \<open>Order of the start\<close>

lemma create_event_threads_calls:
  "c \<in> set (fst (create_event_threads cr evs errs)) \<Longrightarrow>
   (\<exists>ev. c = pthread_create ev) \<or> (\<exists>f a. c = fprintf_stderr f a)"
  by (induction evs arbitrary: errs c) (auto simp: case_prod_beta split: if_splits)

lemma destroy_event_threads_calls:
  "c \<in> set (fst (destroy_event_threads errs jn evs err)) \<Longrightarrow>
   (\<exists>ev. c = pthread_join ev) \<or> (\<exists>f a. c = fprintf_stderr f a)"
  by (induction evs arbitrary: err c) (auto simp: case_prod_beta Let_def split: if_splits)

lemma cleanup_calls:
  "c \<in> set (fst (cleanup env errs err)) \<Longrightarrow>
   (\<exists>ev. c = pthread_join ev) \<or> (\<exists>f a. c = fprintf_stderr f a) \<or> c = sched_analyzer_bpf__destroy"
  by (auto simp: cleanup_def case_prod_beta dest: destroy_event_threads_calls)

lemma split_after_prefix:
  assumes "A @ rest = pre @ x # post" and "x \<notin> set A"
  shows "\<exists>pre'. pre = A @ pre' \<and> rest = pre' @ x # post"
  using assms by (auto simp: append_eq_append_conv2 append_eq_Cons_conv)

lemma before_first_spawn:
  assumes "cs = A @ R" and "parse_kallsyms \<notin> set R" and "\<forall>ev. pthread_create ev \<notin> set A"
    and "cs = pre @ pthread_create ev # post"
  shows "parse_kallsyms \<notin> set post \<and> set A \<subseteq> set pre"
proof -
  from assms(1,4) have eq: "A @ R = pre @ pthread_create ev # post" by simp
  from assms(3) have nin: "pthread_create ev \<notin> set A" by simp
  from split_after_prefix [OF eq nin] obtain pre'
    where pre: "pre = A @ pre'" and R: "R = pre' @ pthread_create ev # post"
    by (elim exE conjE)
  from assms(2) R have "parse_kallsyms \<notin> set post" by simp
  moreover from pre have "set A \<subseteq> set pre" by simp
  ultimately show ?thesis by simp
qed

text \<open>After a successful parse of the arguments the calls of the start begin with
  \<open>argp_parse\<close>, then \<open>parse_kallsyms\<close> if the IPI capability is on, then
  \<open>init_perfetto\<close>; \<open>parse_kallsyms\<close> is not called again.\<close>

lemma main_startup_head:
  assumes "argp_parse_ret env = 0"
  shows "\<exists>R. fst (main_startup env)
           = (argp_parse # (if ipi (opts_parsed env) then [parse_kallsyms] else [])
              @ [init_perfetto]) @ R
         \<and> parse_kallsyms \<notin> set R"
proof -
  have nc: "parse_kallsyms \<notin> set (fst (create_event_threads cr evs errs))" for cr evs errs
    using create_event_threads_calls [of parse_kallsyms cr evs errs] by auto
  have na: "parse_kallsyms \<notin> set (map (\<lambda>p. bpf_program__set_autoload p False) ps)" for ps
    by auto
  show ?thesis
    using assms nc na
    by (simp add: main_startup_def Let_def case_prod_beta)
qed

text \<open>The calls of \<open>main\<close> are those of its start followed by calls among which
  \<open>parse_kallsyms\<close> does not occur.\<close>

lemma main_calls:
  assumes "main env = Some (cs, r)"
  shows "\<exists>T. cs = fst (main_startup env) @ T \<and> parse_kallsyms \<notin> set T"
proof (cases "main_startup env")
  case (Pair cs0 e)
  have ncl: "parse_kallsyms \<notin> set ds" if "cleanup env errs err = (ds, r')" for errs err ds r'
    using cleanup_calls [of parse_kallsyms env errs err] that by auto
  show ?thesis
  proof (cases e)
    case (Return x)
    with Pair assms have "cs = cs0 @ []" by (simp add: main_def)
    with Pair show ?thesis by simp
  next
    case (Goto_cleanup errs err)
    obtain ds r' where cl: "cleanup env errs err = (ds, r')"
      by (cases "cleanup env errs err")
    with Pair Goto_cleanup assms have "cs = cs0 @ ds" by (simp add: main_def)
    with Pair ncl [OF cl] show ?thesis by simp
  next
    case (Threads_created errs err)
    obtain ds r' where cl: "cleanup env errs err = (ds, r')"
      by (cases "cleanup env errs err")
    from Pair Threads_created assms obtain n where n: "wait_exiting (exiting_at env) 0 = Some n"
      by (cases "wait_exiting (exiting_at env) 0") (simp_all add: main_def)
    let ?T = "[printf ''Collecting data, CTRL+c to stop'' [], start_perfetto_trace]
              @ replicate n (sleep 1)
              @ [stop_perfetto_trace,
                 printf ''Collected %s/%s''
                   [output_path (opts_parsed env), output_file (opts_parsed env)]]
              @ ds"
    from Pair Threads_created assms cl n have "cs = cs0 @ ?T" by (simp add: main_def)
    moreover from ncl [OF cl] have "parse_kallsyms \<notin> set ?T" by simp
    ultimately show ?thesis using Pair by (intro exI [of _ ?T]) simp
  qed
qed

lemma kallsyms_order:
  assumes "cs = (argp_parse # (if b then [parse_kallsyms] else []) @ [init_perfetto]) @ R"
    and "parse_kallsyms \<notin> set R"
  shows "(parse_kallsyms \<in> set cs \<longleftrightarrow> b)
   \<and> (\<forall>pre ev post. cs = pre @ pthread_create ev # post \<longrightarrow>
        parse_kallsyms \<notin> set post \<and> (b \<longrightarrow> parse_kallsyms \<in> set pre))"
proof (intro conjI allI impI)
  show "parse_kallsyms \<in> set cs \<longleftrightarrow> b" using assms by simp
next
  fix pre ev post
  assume split: "cs = pre @ pthread_create ev # post"
  have "\<forall>ev. pthread_create ev
      \<notin> set (argp_parse # (if b then [parse_kallsyms] else []) @ [init_perfetto])"
    by simp
  from before_first_spawn [OF assms(1,2) this split]
  have post: "parse_kallsyms \<notin> set post"
    and pre: "set (argp_parse # (if b then [parse_kallsyms] else []) @ [init_perfetto]) \<subseteq> set pre"
    by simp_all
  show "parse_kallsyms \<notin> set post" by (rule post)
  show "parse_kallsyms \<in> set pre" if b using pre that by simp
qed

text \<open>
  Claim C9. When the arguments have been parsed (\<open>argp_parse\<close> answered 0),
  \<open>parse_kallsyms\<close> is among the calls of the start of \<open>main\<close> exactly when the
  IPI capability is on; wherever a \<open>pthread_create\<close> occurs in these calls,
  \<open>parse_kallsyms\<close> does not occur after it and, if the capability is on, occurs
  before it. The same holds for the calls of the whole of \<open>main\<close> when it
  returns.
\<close>

theorem parse_kallsyms_iff_ipi_before_threads:
  assumes "argp_parse_ret env = 0"
  shows "(parse_kallsyms \<in> set (fst (main_startup env)) \<longleftrightarrow> ipi (opts_parsed env))
   \<and> (\<forall>pre ev post. fst (main_startup env) = pre @ pthread_create ev # post \<longrightarrow>
        parse_kallsyms \<notin> set post \<and> (ipi (opts_parsed env) \<longrightarrow> parse_kallsyms \<in> set pre))
   \<and> (\<forall>cs r. main env = Some (cs, r) \<longrightarrow>
        (parse_kallsyms \<in> set cs \<longleftrightarrow> ipi (opts_parsed env))
        \<and> (\<forall>pre ev post. cs = pre @ pthread_create ev # post \<longrightarrow>
             parse_kallsyms \<notin> set post
             \<and> (ipi (opts_parsed env) \<longrightarrow> parse_kallsyms \<in> set pre)))"
proof -
  from main_startup_head [OF assms] obtain R
    where R: "fst (main_startup env)
           = (argp_parse # (if ipi (opts_parsed env) then [parse_kallsyms] else [])
              @ [init_perfetto]) @ R" "parse_kallsyms \<notin> set R"
    by (elim exE conjE)
  note startup = kallsyms_order [OF R]
  have whole: "(parse_kallsyms \<in> set cs \<longleftrightarrow> ipi (opts_parsed env))
        \<and> (\<forall>pre ev post. cs = pre @ pthread_create ev # post \<longrightarrow>
             parse_kallsyms \<notin> set post
             \<and> (ipi (opts_parsed env) \<longrightarrow> parse_kallsyms \<in> set pre))"
    if m: "main env = Some (cs, r)" for cs r
  proof -
    from main_calls [OF m] obtain T
      where T: "cs = fst (main_startup env) @ T" "parse_kallsyms \<notin> set T"
      by (elim exE conjE)
    from R T have "cs = (argp_parse # (if ipi (opts_parsed env) then [parse_kallsyms] else [])
              @ [init_perfetto]) @ (R @ T)" and "parse_kallsyms \<notin> set (R @ T)"
      by simp_all
    then show ?thesis by (rule kallsyms_order)
  qed
  from startup whole show ?thesis by blast
qed

lemma startup_ipi_on:
  "fst (main_startup (env_ok\<lparr>opts_parsed := opts_all\<rparr>)) =
     [argp_parse, parse_kallsyms, init_perfetto, signal ''SIGINT'', signal ''SIGTERM'',
      sched_analyzer_bpf__open, assign_bss_sa_opts,
      bpf_program__set_autoload ''handle_nohz_idle_balance_entry'' False,
      bpf_program__set_autoload ''handle_nohz_idle_balance_exit'' False,
      bpf_program__set_autoload ''handle_cpu_frequency'' False,
      bpf_program__set_autoload ''handle_softirq_entry'' False,
      bpf_program__set_autoload ''handle_softirq_exit'' False,
      bpf_program__set_autoload ''handle_sched_switch'' False,
      sched_analyzer_bpf__load, sched_analyzer_bpf__attach]
     @ pthread_create rq_pelt
     # [pthread_create task_pelt, pthread_create rq_nr_running, pthread_create sched_switch,
        pthread_create freq_idle, pthread_create softirq, pthread_create lb,
        pthread_create ipi_ev]"
  by (simp add: main_startup_def env_ok_def opts_all_def autoload_off_def all_events_def Let_def)

theorem parse_kallsyms_iff_ipi_before_threads_witness:
  "parse_kallsyms \<in> set (fst (main_startup (env_ok\<lparr>opts_parsed := opts_all\<rparr>)))
   \<and> parse_kallsyms \<notin> set (fst (main_startup env_ok))
   \<and> parse_kallsyms
       \<in> set [argp_parse, parse_kallsyms, init_perfetto, signal ''SIGINT'', signal ''SIGTERM'',
              sched_analyzer_bpf__open, assign_bss_sa_opts,
              bpf_program__set_autoload ''handle_nohz_idle_balance_entry'' False,
              bpf_program__set_autoload ''handle_nohz_idle_balance_exit'' False,
              bpf_program__set_autoload ''handle_cpu_frequency'' False,
              bpf_program__set_autoload ''handle_softirq_entry'' False,
              bpf_program__set_autoload ''handle_softirq_exit'' False,
              bpf_program__set_autoload ''handle_sched_switch'' False,
              sched_analyzer_bpf__load, sched_analyzer_bpf__attach]"
proof -
  have on: "argp_parse_ret (env_ok\<lparr>opts_parsed := opts_all\<rparr>) = 0"
    and off: "argp_parse_ret env_ok = 0"
    by (simp_all add: env_ok_def)
  have ipi_on: "ipi (opts_parsed (env_ok\<lparr>opts_parsed := opts_all\<rparr>))"
    and ipi_off: "\<not> ipi (opts_parsed env_ok)"
    by (simp_all add: env_ok_def opts_all_def opts_off_def)
  from parse_kallsyms_iff_ipi_before_threads [OF on] ipi_on
  have 1: "parse_kallsyms \<in> set (fst (main_startup (env_ok\<lparr>opts_parsed := opts_all\<rparr>)))"
    by blast
  from parse_kallsyms_iff_ipi_before_threads [OF off] ipi_off
  have 2: "parse_kallsyms \<notin> set (fst (main_startup env_ok))"
    by blast
  from parse_kallsyms_iff_ipi_before_threads [OF on, THEN conjunct2, THEN conjunct1,
      rule_format, OF startup_ipi_on] ipi_on
  have 3: "parse_kallsyms
       \<in> set [argp_parse, parse_kallsyms, init_perfetto, signal ''SIGINT'', signal ''SIGTERM'',
              sched_analyzer_bpf__open, assign_bss_sa_opts,
              bpf_program__set_autoload ''handle_nohz_idle_balance_entry'' False,
              bpf_program__set_autoload ''handle_nohz_idle_balance_exit'' False,
              bpf_program__set_autoload ''handle_cpu_frequency'' False,
              bpf_program__set_autoload ''handle_softirq_entry'' False,
              bpf_program__set_autoload ''handle_softirq_exit'' False,
              bpf_program__set_autoload ''handle_sched_switch'' False,
              sched_analyzer_bpf__load, sched_analyzer_bpf__attach]"
    by blast
  from 1 2 3 show ?thesis by blast
qed

end
